theory Spec2Isabelle
  imports Main
begin

section \<open>The chart table of the welcome page (ChartTable.tsx)\<close>

text \<open>
  A shallow embedding of the React component \<open>ChartTable\<close>. The component's own state
  (the three \<open>useState\<close> cells), the browser's local storage and the calls it makes to its
  collaborators are one record that every handler returns updated. Hooks and helpers that
  the component only consumes (\<open>useListViewResource\<close>, \<open>useChartEditModal\<close>,
  \<open>handleResourceExport\<close>) appear as logged calls, as arguments of the render
  function, or as environment events.
\<close>

subsection \<open>JavaScript values\<close>

text \<open>
  \<open>mine: Array<any>\<close> and \<open>examples?: Array<object>\<close> hold plain JSON objects: an object
  is its list of own properties. Reading a property that is not there gives \<open>undefined\<close>.
\<close>

datatype js_value = JUndefined | JNull | JBool bool | JNum int | JStr string

type_synonym js_object = "(string \<times> js_value) list"

definition has_key :: "string \<Rightarrow> js_object \<Rightarrow> bool" where
  \<comment> \<open>\<open>key in obj\<close>\<close>
  "has_key k obj = (map_of obj k \<noteq> None)"

definition get_prop :: "js_object \<Rightarrow> string \<Rightarrow> js_value" where
  \<comment> \<open>\<open>obj.key\<close>\<close>
  "get_prop obj k = (case map_of obj k of None \<Rightarrow> JUndefined | Some v \<Rightarrow> v)"

definition lodash_filter :: "js_object list option \<Rightarrow> (js_object \<Rightarrow> bool) \<Rightarrow> js_object list" where
  \<comment> \<open>lodash \<open>filter(collection, predicate)\<close>: an undefined collection is an empty one\<close>
  "lodash_filter coll pred = (case coll of None \<Rightarrow> [] | Some xs \<Rightarrow> filter pred xs)"

text \<open>Decimal rendering of an integer, as a template literal renders a whole number.\<close>

definition digit_char :: "nat \<Rightarrow> char" where
  "digit_char d = ''0123456789'' ! (d mod 10)"

fun string_of_nat :: "nat \<Rightarrow> string" where
  "string_of_nat n =
     (if n < 10 then [digit_char n] else string_of_nat (n div 10) @ [digit_char (n mod 10)])"

declare string_of_nat.simps [simp del]

definition string_of_int :: "int \<Rightarrow> string" where
  "string_of_int i = (if i < 0 then CHR ''-'' # string_of_nat (nat (- i)) else string_of_nat (nat i))"

subsection \<open>Constants and properties\<close>

definition PAGE_SIZE :: nat where
  "PAGE_SIZE = 3"

text \<open>
  Modelled from the spec: the enumeration \<open>TableTabTypes\<close>, which the component imports
  from \<open>src/views/CRUD/types\<close>. The spec gives the filter tab as the enumeration
  Favorite, Mine, Examples, persisted by its name.
\<close>

definition TableTabTypes_FAVORITE :: string where
  "TableTabTypes_FAVORITE = ''Favorite''"

definition TableTabTypes_MINE :: string where
  "TableTabTypes_MINE = ''Mine''"

definition TableTabTypes_EXAMPLES :: string where
  "TableTabTypes_EXAMPLES = ''Examples''"

text \<open>
  Modelled from the spec: the storage key \<open>HOMEPAGE_CHART_FILTER\<close>, imported from
  \<open>src/views/CRUD/storageKeys\<close>: the one fixed key of the chart filter tab. No proof
  below looks at its value.
\<close>

definition HOMEPAGE_CHART_FILTER :: string where
  "HOMEPAGE_CHART_FILTER = ''homepage_chart_filter''"

text \<open>Of the type \<open>User\<close> the component reads \<open>userId\<close> only.\<close>

record user =
  userId :: int

record ChartTableProps =
  user :: "user option"
  mine :: "js_object list"
  showThumbnails :: bool
  examples :: "js_object list option"

subsection \<open>Key-value persistence\<close>

type_synonym local_storage = "string \<rightharpoonup> string"

text \<open>
  Modelled from the spec: \<open>getFromLocalStorage\<close> and \<open>setInLocalStorage\<close> of
  \<open>src/utils/localStorageHelpers\<close>, by the contract \<open>get(key) \<rightarrow> value|null\<close>,
  \<open>set(key, value) \<rightarrow> void\<close>. The second argument of the getter is the value returned for
  a key that holds nothing.
\<close>

definition getFromLocalStorage :: "local_storage \<Rightarrow> string \<Rightarrow> string option \<Rightarrow> string option" where
  "getFromLocalStorage store key defaultValue =
     (case store key of None \<Rightarrow> defaultValue | Some v \<Rightarrow> Some v)"

definition setInLocalStorage :: "string \<Rightarrow> string \<Rightarrow> local_storage \<Rightarrow> local_storage" where
  "setInLocalStorage key v store = store(key \<mapsto> v)"

subsection \<open>The initial tab and the default collection\<close>

definition js_or :: "string option \<Rightarrow> string \<Rightarrow> string" where
  \<comment> \<open>\<open>a || b\<close> for a string or null on the left: null and the empty string are falsy\<close>
  "js_or a b = (case a of None \<Rightarrow> b | Some s \<Rightarrow> if s = [] then b else s)"

definition initialFilter :: "js_object list option \<Rightarrow> string option \<Rightarrow> string" where
  \<comment> \<open>an array, also an empty one, is truthy: \<open>!examples\<close> holds for undefined only\<close>
  "initialFilter exs filterStore =
     (let initial = js_or filterStore TableTabTypes_EXAMPLES
      in if exs = None \<and> filterStore = Some TableTabTypes_EXAMPLES then TableTabTypes_MINE
         else initial)"

definition filteredExamples :: "js_object list option \<Rightarrow> js_object list" where
  "filteredExamples exs = lodash_filter exs (has_key ''viz_type'')"

definition defaultCollection :: "ChartTableProps \<Rightarrow> string \<Rightarrow> js_object list" where
  \<comment> \<open>the fifth argument of \<open>useListViewResource\<close>\<close>
  "defaultCollection p initial = (if initial = ''Mine'' then mine p else filteredExamples (examples p))"

subsection \<open>The request\<close>

record sort_by =
  sort_id :: string
  desc :: bool

record filter_value =
  filter_id :: string
  operator :: string
  val :: js_value

record fetch_config =
  pageIndex :: nat
  pageSize :: nat
  sortBy :: "sort_by list"
  filters :: "filter_value list"

definition template_userId :: "user option \<Rightarrow> string" where
  \<comment> \<open>the template literal around \<open>user?.userId\<close>\<close>
  "template_userId u = (case u of None \<Rightarrow> ''undefined'' | Some x \<Rightarrow> string_of_int (userId x))"

definition getFilters :: "ChartTableProps \<Rightarrow> string \<Rightarrow> filter_value list" where
  "getFilters p filterName =
     (if filterName = ''Mine'' then
        [\<lparr>filter_id = ''created_by'', operator = ''rel_o_m'', val = JStr (template_userId (user p))\<rparr>]
      else if filterName = ''Favorite'' then
        [\<lparr>filter_id = ''id'', operator = ''chart_is_favorite'', val = JBool True\<rparr>]
      else [])"

definition getData :: "ChartTableProps \<Rightarrow> string \<Rightarrow> fetch_config" where
  \<comment> \<open>the argument that \<open>getData\<close> hands to \<open>fetchData\<close>\<close>
  "getData p f =
     \<lparr>pageIndex = 0, pageSize = PAGE_SIZE,
      sortBy = [\<lparr>sort_id = ''changed_on_delta_humanized'', desc = True\<rparr>],
      filters = getFilters p f\<rparr>"

subsection \<open>State, handlers and the effect\<close>

text \<open>
  \<open>chartFilter\<close>, \<open>preparingExport\<close> and \<open>loaded\<close> are the component's \<open>useState\<close> cells.
  \<open>effectDeps\<close> is what React keeps for \<open>useEffect(..., [chartFilter])\<close>: the dependency
  of the last run, nothing before the first. \<open>fetchCalls\<close> and \<open>exportCalls\<close> log the calls
  of \<open>fetchData\<close> and \<open>handleResourceExport\<close>, oldest first; \<open>exportsDone\<close> counts the
  completion callbacks that have fired.
\<close>

record ct_state =
  chartFilter :: string
  preparingExport :: bool
  loaded :: bool
  effectDeps :: "string option"
  localStorage :: local_storage
  fetchCalls :: "fetch_config list"
  exportCalls :: "(string \<times> js_value list) list"
  exportsDone :: nat

definition setChartFilter :: "string \<Rightarrow> ct_state \<Rightarrow> ct_state" where
  "setChartFilter v s = s\<lparr>chartFilter := v\<rparr>"

definition setPreparingExport :: "bool \<Rightarrow> ct_state \<Rightarrow> ct_state" where
  "setPreparingExport v s = s\<lparr>preparingExport := v\<rparr>"

definition setLoaded :: "bool \<Rightarrow> ct_state \<Rightarrow> ct_state" where
  "setLoaded v s = s\<lparr>loaded := v\<rparr>"

definition fetchData :: "fetch_config \<Rightarrow> ct_state \<Rightarrow> ct_state" where
  \<comment> \<open>the call of the loader's \<open>fetchData\<close>, as seen from the component\<close>
  "fetchData c s = s\<lparr>fetchCalls := fetchCalls s @ [c]\<rparr>"

definition useEffect_body :: "ChartTableProps \<Rightarrow> ct_state \<Rightarrow> ct_state" where
  "useEffect_body p s =
     setLoaded True
       (if loaded s \<or> chartFilter s = ''Favorite'' then fetchData (getData p (chartFilter s)) s
        else s)"

definition rerender :: "ChartTableProps \<Rightarrow> ct_state \<Rightarrow> ct_state" where
  \<comment> \<open>a render commits; the effect runs when its dependency differs from the last run's\<close>
  "rerender p s =
     (if effectDeps s = Some (chartFilter s) then s
      else useEffect_body p (s\<lparr>effectDeps := Some (chartFilter s)\<rparr>))"

definition handleBulkChartExport :: "js_object list \<Rightarrow> ct_state \<Rightarrow> ct_state" where
  "handleBulkChartExport chartsToExport s =
     (let ids = map (\<lambda>c. get_prop c ''id'') chartsToExport
      in setPreparingExport True (s\<lparr>exportCalls := exportCalls s @ [(''chart'', ids)]\<rparr>))"

text \<open>A tab's label is its name handed to the translation function \<open>t\<close>, left out here.\<close>

record menu_tab =
  tab_name :: string
  tab_label :: string
  onClick :: "ct_state \<Rightarrow> ct_state"

definition select_tab :: "string \<Rightarrow> ct_state \<Rightarrow> ct_state" where
  \<comment> \<open>the body shared by the three \<open>onClick\<close> handlers\<close>
  "select_tab v s =
     (let s1 = setChartFilter v s
      in s1\<lparr>localStorage := setInLocalStorage HOMEPAGE_CHART_FILTER v (localStorage s1)\<rparr>)"

definition menuTabs :: "ChartTableProps \<Rightarrow> menu_tab list" where
  "menuTabs p =
     [\<lparr>tab_name = ''Favorite'', tab_label = ''Favorite'', onClick = select_tab TableTabTypes_FAVORITE\<rparr>,
      \<lparr>tab_name = ''Mine'', tab_label = ''Mine'', onClick = select_tab TableTabTypes_MINE\<rparr>]
     @ (if examples p \<noteq> None then
          [\<lparr>tab_name = ''Examples'', tab_label = ''Examples'',
            onClick = select_tab TableTabTypes_EXAMPLES\<rparr>]
        else [])"

subsection \<open>Mounting and events\<close>

definition mount :: "ChartTableProps \<Rightarrow> local_storage \<Rightarrow> ct_state" where
  \<comment> \<open>the first render and its commit\<close>
  "mount p store =
     (let filterStore = getFromLocalStorage store HOMEPAGE_CHART_FILTER None
      in rerender p
           \<lparr>chartFilter = initialFilter (examples p) filterStore, preparingExport = False,
            loaded = False, effectDeps = None, localStorage = store, fetchCalls = [],
            exportCalls = [], exportsDone = 0\<rparr>)"

text \<open>
  What happens to a mounted component: a click on the tab of that name (nothing, when
  the submenu has no such tab), a bulk export asked for from a card, and the export
  collaborator calling back (it has a callback to call once per export it was handed).
\<close>

datatype event = TabClick string | BulkExport "js_object list" | ExportDone

definition handle :: "ChartTableProps \<Rightarrow> ct_state \<Rightarrow> event \<Rightarrow> ct_state" where
  "handle p s e =
     (case e of
        TabClick n \<Rightarrow>
          (case find (\<lambda>t. tab_name t = n) (menuTabs p) of None \<Rightarrow> s | Some t \<Rightarrow> onClick t s)
      | BulkExport cs \<Rightarrow> handleBulkChartExport cs s
      | ExportDone \<Rightarrow>
          (if exportsDone s < length (exportCalls s)
           then (setPreparingExport False s)\<lparr>exportsDone := Suc (exportsDone s)\<rparr>
           else s))"

definition step :: "ChartTableProps \<Rightarrow> ct_state \<Rightarrow> event \<Rightarrow> ct_state" where
  "step p s e = rerender p (handle p s e)"

definition run :: "ChartTableProps \<Rightarrow> ct_state \<Rightarrow> event list \<Rightarrow> ct_state" where
  "run p s evs = foldl (step p) s evs"

fun tab_changes :: "ChartTableProps \<Rightarrow> string \<Rightarrow> event list \<Rightarrow> string list" where
  \<comment> \<open>the tabs that clicks switch to, starting from tab \<open>cur\<close>; a click on the active tab is no switch\<close>
  "tab_changes p cur [] = []"
| "tab_changes p cur (TabClick n # evs) =
     (if n \<in> set (map tab_name (menuTabs p)) \<and> n \<noteq> cur then n # tab_changes p n evs
      else tab_changes p cur evs)"
| "tab_changes p cur (e # evs) = tab_changes p cur evs"

subsection \<open>The view\<close>

text \<open>
  What the loader hook and the edit-modal hook hand to a render: the loading flag, the
  chart collection and the chart being edited.
\<close>

record hooks =
  loading :: bool
  resourceCollection :: "js_object list"
  sliceCurrentlyEditing :: "js_object option"

datatype body = CardContainer "js_object list" | EmptyState string string

record page =
  modal :: "js_object option"
  activeChild :: string
  tabs :: "string list"
  viewAllTarget :: string
  content :: body
  exportOverlay :: bool

datatype view = LoadingInline | ErrorBoundary page

definition render :: "ChartTableProps \<Rightarrow> hooks \<Rightarrow> ct_state \<Rightarrow> view" where
  "render p h s =
     (if loading h then LoadingInline
      else ErrorBoundary
        \<lparr>modal = sliceCurrentlyEditing h,
         activeChild = chartFilter s,
         tabs = map tab_name (menuTabs p),
         viewAllTarget =
           (if chartFilter s = ''Favorite'' then ''/chart/list/?filters=(favorite:!t)''
            else ''/chart/list/''),
         content =
           (if resourceCollection h \<noteq> [] then CardContainer (resourceCollection h)
            else EmptyState ''CHARTS'' (chartFilter s)),
         exportOverlay = preparingExport s\<rparr>)"

subsection \<open>The edit modal controller\<close>

text \<open>
  Modelled from the spec: the hook \<open>useChartEditModal\<close>, imported from
  \<open>src/views/CRUD/hooks\<close>. The spec: states closed and editing(chart);
  \<open>open(chart)\<close> transitions to editing; \<open>save(updatedChart)\<close> replaces the matching entry
  in the chart collection by id and transitions to closed; \<open>close()\<close> transitions to closed
  without mutation. The component wires \<open>handleChartUpdated\<close> to the modal's \<open>onSave\<close> and
  \<open>closeChartEditModal\<close> to its \<open>onHide\<close>.
\<close>

definition chart_id :: "js_object \<Rightarrow> js_value" where
  "chart_id c = get_prop c ''id''"

definition openChartEditModal :: "js_object \<Rightarrow> hooks \<Rightarrow> hooks" where
  "openChartEditModal chart h = h\<lparr>sliceCurrentlyEditing := Some chart\<rparr>"

definition handleChartUpdated :: "js_object \<Rightarrow> hooks \<Rightarrow> hooks" where
  "handleChartUpdated updated h =
     h\<lparr>resourceCollection :=
         map (\<lambda>c. if chart_id c = chart_id updated then updated else c) (resourceCollection h),
       sliceCurrentlyEditing := None\<rparr>"

definition closeChartEditModal :: "hooks \<Rightarrow> hooks" where
  "closeChartEditModal h = h\<lparr>sliceCurrentlyEditing := None\<rparr>"

subsection \<open>Derived notions\<close>

definition seededCollection :: "ChartTableProps \<Rightarrow> local_storage \<Rightarrow> js_object list" where
  \<comment> \<open>the default collection that a render hands to \<open>useListViewResource\<close>\<close>
  "seededCollection p store =
     defaultCollection p
       (initialFilter (examples p) (getFromLocalStorage store HOMEPAGE_CHART_FILTER None))"

definition settled :: "ct_state \<Rightarrow> bool" where
  \<comment> \<open>between events: the effect has run for the current tab\<close>
  "settled s = (loaded s \<and> effectDeps s = Some (chartFilter s))"

section \<open>Properties\<close>

subsection \<open>Renders, effects and events\<close>

lemma chartFilter_useEffect_body [simp]: "chartFilter (useEffect_body p s) = chartFilter s"
  by (simp add: useEffect_body_def setLoaded_def fetchData_def)

lemma chartFilter_rerender [simp]: "chartFilter (rerender p s) = chartFilter s"
  by (simp add: rerender_def)

lemma settled_rerender: "loaded s \<or> effectDeps s \<noteq> Some (chartFilter s) \<Longrightarrow> settled (rerender p s)"
  by (auto simp add: settled_def rerender_def useEffect_body_def setLoaded_def fetchData_def)

lemma settled_mount: "settled (mount p store)"
  by (simp add: mount_def Let_def settled_rerender)

lemma find_menuTabs:
  "find (\<lambda>t. tab_name t = n) (menuTabs p) =
     (if n \<in> set (map tab_name (menuTabs p))
      then Some \<lparr>tab_name = n, tab_label = n, onClick = select_tab n\<rparr> else None)"
  by (auto simp add: menuTabs_def TableTabTypes_FAVORITE_def TableTabTypes_MINE_def
      TableTabTypes_EXAMPLES_def)

lemma handle_TabClick:
  "handle p s (TabClick n) = (if n \<in> set (map tab_name (menuTabs p)) then select_tab n s else s)"
  by (simp add: handle_def find_menuTabs)

lemma handle_BulkExport: "handle p s (BulkExport cs) = handleBulkChartExport cs s"
  by (simp add: handle_def)

lemma handle_ExportDone:
  "handle p s ExportDone =
     (if exportsDone s < length (exportCalls s)
      then (setPreparingExport False s)\<lparr>exportsDone := Suc (exportsDone s)\<rparr> else s)"
  by (simp add: handle_def)

lemmas handle_simps = handle_TabClick handle_BulkExport handle_ExportDone select_tab_def
  setChartFilter_def Let_def handleBulkChartExport_def setPreparingExport_def

lemma loaded_handle [simp]: "loaded (handle p s e) = loaded s"
  by (cases e) (simp_all add: handle_simps)

lemma settled_step: "settled s \<Longrightarrow> settled (step p s e)"
  unfolding step_def by (rule settled_rerender) (simp add: settled_def)

lemma settled_run: "settled s \<Longrightarrow> settled (run p s evs)"
  unfolding run_def by (induction evs arbitrary: s) (simp_all add: settled_step)

lemma fetchCalls_handle [simp]: "fetchCalls (handle p s e) = fetchCalls s"
  by (cases e) (simp_all add: handle_simps)

lemma effectDeps_handle [simp]: "effectDeps (handle p s e) = effectDeps s"
  by (cases e) (simp_all add: handle_simps)

lemma chartFilter_handle:
  "chartFilter (handle p s e) =
     (case e of TabClick n \<Rightarrow> if n \<in> set (map tab_name (menuTabs p)) then n else chartFilter s
      | _ \<Rightarrow> chartFilter s)"
  by (cases e) (simp_all add: handle_simps)

lemma fetchCalls_rerender:
  "loaded s \<Longrightarrow> fetchCalls (rerender p s) =
     (if effectDeps s = Some (chartFilter s) then fetchCalls s
      else fetchCalls s @ [getData p (chartFilter s)])"
  by (simp add: rerender_def useEffect_body_def setLoaded_def fetchData_def)

lemma fetchCalls_step:
  assumes "settled s"
  shows "fetchCalls (step p s e) = fetchCalls s @ map (getData p) (tab_changes p (chartFilter s) [e])"
  using assms
  by (cases e) (auto simp add: step_def fetchCalls_rerender settled_def chartFilter_handle)

lemma chartFilter_step: "chartFilter (step p s e) = chartFilter (handle p s e)"
  by (simp add: step_def)

lemma fetchCalls_run:
  "settled s \<Longrightarrow>
   fetchCalls (run p s evs) = fetchCalls s @ map (getData p) (tab_changes p (chartFilter s) evs)"
proof (induction evs arbitrary: s)
  case Nil
  then show ?case by (simp add: run_def)
next
  case (Cons e evs)
  have "run p s (e # evs) = run p (step p s e) evs" by (simp add: run_def)
  moreover have "settled (step p s e)" using Cons.prems by (rule settled_step)
  ultimately show ?case
    using Cons.IH [of "step p s e"] Cons.prems
    by (cases e) (auto simp add: fetchCalls_step chartFilter_step chartFilter_handle)
qed

lemma fetchCalls_mount:
  "fetchCalls (mount p store) =
     (let f = initialFilter (examples p) (getFromLocalStorage store HOMEPAGE_CHART_FILTER None)
      in if f = ''Favorite'' then [getData p f] else [])"
  by (simp add: mount_def Let_def rerender_def useEffect_body_def setLoaded_def fetchData_def)

lemma chartFilter_mount:
  "chartFilter (mount p store) =
     initialFilter (examples p) (getFromLocalStorage store HOMEPAGE_CHART_FILTER None)"
  by (simp add: mount_def Let_def)

lemma exports_handle:
  "exportsDone s \<le> length (exportCalls s) \<Longrightarrow>
   exportsDone (handle p s e) \<le> length (exportCalls (handle p s e))"
  by (cases e) (simp_all add: handle_simps)

lemma exportCalls_rerender [simp]: "exportCalls (rerender p s) = exportCalls s"
  by (simp add: rerender_def useEffect_body_def setLoaded_def fetchData_def)

lemma exportsDone_rerender [simp]: "exportsDone (rerender p s) = exportsDone s"
  by (simp add: rerender_def useEffect_body_def setLoaded_def fetchData_def)

lemma preparingExport_rerender [simp]: "preparingExport (rerender p s) = preparingExport s"
  by (simp add: rerender_def useEffect_body_def setLoaded_def fetchData_def)

lemma exports_step:
  "exportsDone s \<le> length (exportCalls s) \<Longrightarrow>
   exportsDone (step p s e) \<le> length (exportCalls (step p s e))"
  by (simp add: step_def exports_handle)

lemma exports_run:
  "exportsDone s \<le> length (exportCalls s) \<Longrightarrow>
   exportsDone (run p s evs) \<le> length (exportCalls (run p s evs))"
  unfolding run_def by (induction evs arbitrary: s) (simp_all add: exports_step)

lemma exports_mount: "exportsDone (mount p store) \<le> length (exportCalls (mount p store))"
  by (simp add: mount_def Let_def)

lemma export_pending_step:
  "e \<noteq> ExportDone \<Longrightarrow> preparingExport s \<Longrightarrow> exportsDone s < length (exportCalls s) \<Longrightarrow>
   preparingExport (step p s e) \<and> exportsDone (step p s e) < length (exportCalls (step p s e))"
  by (cases e) (simp_all add: step_def handle_simps)

lemma export_pending_run:
  "ExportDone \<notin> set evs \<Longrightarrow> preparingExport s \<Longrightarrow> exportsDone s < length (exportCalls s) \<Longrightarrow>
   preparingExport (run p s evs) \<and> exportsDone (run p s evs) < length (exportCalls (run p s evs))"
proof (induction evs arbitrary: s)
  case Nil
  then show ?case by (simp add: run_def)
next
  case (Cons e evs)
  from Cons.prems have "e \<noteq> ExportDone" and rest: "ExportDone \<notin> set evs" by auto
  with Cons.prems have "preparingExport (step p s e) \<and>
      exportsDone (step p s e) < length (exportCalls (step p s e))"
    by (simp add: export_pending_step)
  with rest Cons.IH [of "step p s e"] show ?case by (simp add: run_def)
qed

lemma export_trigger_step:
  "exportsDone s \<le> length (exportCalls s) \<Longrightarrow>
   preparingExport (step p s (BulkExport cs))
   \<and> exportCalls (step p s (BulkExport cs)) = exportCalls s @ [(''chart'', map chart_id cs)]
   \<and> exportsDone (step p s (BulkExport cs)) < length (exportCalls (step p s (BulkExport cs)))"
  by (simp add: step_def handle_simps chart_id_def [abs_def])

lemma export_done_step:
  "exportsDone s < length (exportCalls s) \<Longrightarrow> \<not> preparingExport (step p s ExportDone)"
  by (simp add: step_def handle_simps)

lemma render_overlay:
  "\<not> loading h \<Longrightarrow> resourceCollection h \<noteq> [] \<Longrightarrow> preparingExport s \<Longrightarrow>
   \<exists>pg. render p h s = ErrorBoundary pg \<and> content pg = CardContainer (resourceCollection h)
     \<and> exportOverlay pg"
  by (simp add: render_def)

lemma has_key_iff: "has_key k obj \<longleftrightarrow> k \<in> fst ` set obj"
  by (simp add: has_key_def map_of_eq_None_iff)

subsection \<open>The claims\<close>

text \<open>
  C1. Whenever the active tab becomes Favorite, a fetch of the chart collection is
  issued: the effect run for the tab Favorite calls \<open>fetchData\<close> whatever \<open>loaded\<close> holds;
  a mount whose initial tab is Favorite issues exactly the Favorite request; and in every
  state the mounted component can reach, whatever the properties (so whatever default
  collection was supplied), a click on the Favorite tab from another tab makes Favorite
  the active tab and appends the Favorite request to the calls made so far.
\<close>

theorem favorite_always_fetches:
  "fetchCalls (useEffect_body p (s\<lparr>chartFilter := ''Favorite''\<rparr>))
     = fetchCalls s @ [getData p ''Favorite'']
   \<and> (chartFilter (mount p store) = ''Favorite'' \<longrightarrow>
        fetchCalls (mount p store) = [getData p ''Favorite''])
   \<and> (chartFilter (run p (mount p store) evs) \<noteq> ''Favorite'' \<longrightarrow>
        chartFilter (step p (run p (mount p store) evs) (TabClick ''Favorite'')) = ''Favorite''
        \<and> fetchCalls (step p (run p (mount p store) evs) (TabClick ''Favorite''))
            = fetchCalls (run p (mount p store) evs) @ [getData p ''Favorite''])"
proof -
  have "settled (run p (mount p store) evs)"
    by (rule settled_run) (rule settled_mount)
  then have "fetchCalls (step p (run p (mount p store) evs) (TabClick ''Favorite''))
      = fetchCalls (run p (mount p store) evs)
        @ map (getData p) (tab_changes p (chartFilter (run p (mount p store) evs)) [TabClick ''Favorite''])"
    by (rule fetchCalls_step)
  moreover have "''Favorite'' \<in> set (map tab_name (menuTabs p))"
    by (simp add: menuTabs_def)
  ultimately show ?thesis
    by (simp add: useEffect_body_def setLoaded_def fetchData_def fetchCalls_mount
        chartFilter_mount Let_def chartFilter_step chartFilter_handle)
qed

theorem favorite_always_fetches_witness:
  "(let p = \<lparr>user = Some \<lparr>userId = 7\<rparr>, mine = [[(''id'', JNum 1)]], showThumbnails = True,
             examples = Some []\<rparr>;
        fav = \<lparr>pageIndex = 0, pageSize = 3,
                sortBy = [\<lparr>sort_id = ''changed_on_delta_humanized'', desc = True\<rparr>],
                filters = [\<lparr>filter_id = ''id'', operator = ''chart_is_favorite'', val = JBool True\<rparr>]\<rparr>
    in chartFilter (mount p [HOMEPAGE_CHART_FILTER \<mapsto> ''Favorite'']) = ''Favorite''
       \<and> fetchCalls (mount p [HOMEPAGE_CHART_FILTER \<mapsto> ''Favorite'']) = [fav]
       \<and> chartFilter (run p (mount p [HOMEPAGE_CHART_FILTER \<mapsto> ''Mine'']) [TabClick ''Examples''])
           \<noteq> ''Favorite''
       \<and> fetchCalls (step p (run p (mount p [HOMEPAGE_CHART_FILTER \<mapsto> ''Mine''])
             [TabClick ''Examples'']) (TabClick ''Favorite''))
          = fetchCalls (run p (mount p [HOMEPAGE_CHART_FILTER \<mapsto> ''Mine'']) [TabClick ''Examples''])
            @ [fav])"
proof -
  have a: "chartFilter (mount p [HOMEPAGE_CHART_FILTER \<mapsto> ''Favorite'']) = ''Favorite''" for p
    by (simp add: chartFilter_mount getFromLocalStorage_def initialFilter_def js_or_def
        TableTabTypes_EXAMPLES_def)
  have b: "chartFilter (run p (mount p [HOMEPAGE_CHART_FILTER \<mapsto> ''Mine'']) [TabClick ''Examples''])
      \<noteq> ''Favorite''" for p
    by (simp add: run_def chartFilter_step chartFilter_handle chartFilter_mount
        getFromLocalStorage_def initialFilter_def js_or_def TableTabTypes_EXAMPLES_def)
  have c: "getData p ''Favorite'' = \<lparr>pageIndex = 0, pageSize = 3,
                sortBy = [\<lparr>sort_id = ''changed_on_delta_humanized'', desc = True\<rparr>],
                filters = [\<lparr>filter_id = ''id'', operator = ''chart_is_favorite'', val = JBool True\<rparr>]\<rparr>"
    for p by (simp add: getData_def getFilters_def PAGE_SIZE_def)
  show ?thesis
    using a b
      favorite_always_fetches [of "\<lparr>user = Some \<lparr>userId = 7\<rparr>, mine = [[(''id'', JNum 1)]],
        showThumbnails = True, examples = Some []\<rparr>" _ "[HOMEPAGE_CHART_FILTER \<mapsto> ''Favorite'']"]
      favorite_always_fetches [of "\<lparr>user = Some \<lparr>userId = 7\<rparr>, mine = [[(''id'', JNum 1)]],
        showThumbnails = True, examples = Some []\<rparr>" _ "[HOMEPAGE_CHART_FILTER \<mapsto> ''Mine'']"
        "[TabClick ''Examples'']"]
    by (simp add: Let_def c)
qed

text \<open>
  C2. On mount the initial tab is the value read from storage under the key
  \<open>HOMEPAGE_CHART_FILTER\<close>, except that a stored "Examples" with no examples collection
  supplied resolves to "Mine". The value read is a stored, non-empty string (nothing
  stored is the case of C9; the empty string is falsy for \<open>||\<close> and reads as nothing
  stored).
\<close>

theorem initial_tab_from_storage:
  assumes "getFromLocalStorage store HOMEPAGE_CHART_FILTER None = Some v" and "v \<noteq> []"
  shows "chartFilter (mount p store) =
           (if examples p = None \<and> v = ''Examples'' then ''Mine'' else v)"
  using assms
  by (simp add: chartFilter_mount initialFilter_def js_or_def Let_def
      TableTabTypes_MINE_def TableTabTypes_EXAMPLES_def)

theorem initial_tab_from_storage_witness:
  "getFromLocalStorage [HOMEPAGE_CHART_FILTER \<mapsto> ''Examples''] HOMEPAGE_CHART_FILTER None
     = Some ''Examples''
   \<and> ''Examples'' \<noteq> []
   \<and> chartFilter (mount \<lparr>user = None, mine = [], showThumbnails = False, examples = None\<rparr>
         [HOMEPAGE_CHART_FILTER \<mapsto> ''Examples'']) = ''Mine''
   \<and> chartFilter (mount \<lparr>user = None, mine = [], showThumbnails = False, examples = Some []\<rparr>
         [HOMEPAGE_CHART_FILTER \<mapsto> ''Examples'']) = ''Examples''
   \<and> chartFilter (mount \<lparr>user = None, mine = [], showThumbnails = False, examples = None\<rparr>
         [HOMEPAGE_CHART_FILTER \<mapsto> ''Favorite'']) = ''Favorite''"
proof -
  have a: "getFromLocalStorage [HOMEPAGE_CHART_FILTER \<mapsto> x] HOMEPAGE_CHART_FILTER None = Some x"
    for x by (simp add: getFromLocalStorage_def)
  show ?thesis
    using a [of "''Examples''"]
      initial_tab_from_storage [OF a [of "''Examples''"],
        of "\<lparr>user = None, mine = [], showThumbnails = False, examples = None\<rparr>"]
      initial_tab_from_storage [OF a [of "''Examples''"],
        of "\<lparr>user = None, mine = [], showThumbnails = False, examples = Some []\<rparr>"]
      initial_tab_from_storage [OF a [of "''Favorite''"],
        of "\<lparr>user = None, mine = [], showThumbnails = False, examples = None\<rparr>"]
    by simp
qed

text \<open>
  C3. For every tab of the submenu, after its \<open>onClick\<close> handler has run the tab state
  is the tab's name and the value read back from storage under the key
  \<open>HOMEPAGE_CHART_FILTER\<close> is that same name; with an examples collection supplied the
  tabs are Favorite, Mine and Examples.
\<close>

theorem tab_handler_persists:
  "(\<forall>t \<in> set (menuTabs p).
      chartFilter (onClick t s) = tab_name t
      \<and> getFromLocalStorage (localStorage (onClick t s)) HOMEPAGE_CHART_FILTER None
          = Some (tab_name t))
   \<and> map tab_name (menuTabs (p\<lparr>examples := Some exs\<rparr>)) = [''Favorite'', ''Mine'', ''Examples'']"
  by (simp add: menuTabs_def select_tab_def setChartFilter_def setInLocalStorage_def
      getFromLocalStorage_def Let_def TableTabTypes_FAVORITE_def TableTabTypes_MINE_def
      TableTabTypes_EXAMPLES_def)

theorem tab_handler_persists_witness:
  "(let p = \<lparr>user = None, mine = [], showThumbnails = True, examples = Some []\<rparr>;
        s = mount p [HOMEPAGE_CHART_FILTER \<mapsto> ''Mine''];
        t = menuTabs p ! 2
    in t \<in> set (menuTabs p) \<and> tab_name t = ''Examples''
       \<and> chartFilter (onClick t s) = ''Examples''
       \<and> getFromLocalStorage (localStorage (onClick t s)) HOMEPAGE_CHART_FILTER None
           = Some ''Examples'')"
proof -
  let ?p = "\<lparr>user = None, mine = [], showThumbnails = True, examples = Some []\<rparr>"
  have a: "menuTabs ?p ! 2 \<in> set (menuTabs ?p)" by (simp add: menuTabs_def)
  have b: "tab_name (menuTabs ?p ! 2) = ''Examples''" by (simp add: menuTabs_def)
  from tab_handler_persists [of ?p "mount ?p [HOMEPAGE_CHART_FILTER \<mapsto> ''Mine'']"]
  have "\<forall>t \<in> set (menuTabs ?p).
      chartFilter (onClick t (mount ?p [HOMEPAGE_CHART_FILTER \<mapsto> ''Mine''])) = tab_name t
      \<and> getFromLocalStorage (localStorage (onClick t (mount ?p [HOMEPAGE_CHART_FILTER \<mapsto> ''Mine''])))
          HOMEPAGE_CHART_FILTER None = Some (tab_name t)"
    by (rule conjunct1)
  from bspec [OF this a] a b show ?thesis by (simp add: Let_def)
qed

text \<open>
  C4. For every tab \<open>t\<close> the request that \<open>getData\<close> issues asks for page index 0,
  page size 3, sorted by \<open>changed_on_delta_humanized\<close> descending, with the filters
  \<open>getFilters\<close> derives from \<open>t\<close>: for Mine one filter on \<open>created_by\<close> whose value is the
  current user's id (rendered by the template literal), for Favorite the one
  \<open>chart_is_favorite\<close> filter, for Examples none.
\<close>

theorem getData_request:
  "pageIndex (getData p t) = 0 \<and> pageSize (getData p t) = 3
   \<and> sortBy (getData p t) = [\<lparr>sort_id = ''changed_on_delta_humanized'', desc = True\<rparr>]
   \<and> filters (getData p t) = getFilters p t
   \<and> getFilters (p\<lparr>user := Some u\<rparr>) TableTabTypes_MINE =
       [\<lparr>filter_id = ''created_by'', operator = ''rel_o_m'', val = JStr (string_of_int (userId u))\<rparr>]
   \<and> getFilters p TableTabTypes_FAVORITE =
       [\<lparr>filter_id = ''id'', operator = ''chart_is_favorite'', val = JBool True\<rparr>]
   \<and> getFilters p TableTabTypes_EXAMPLES = []"
  by (simp add: getData_def getFilters_def PAGE_SIZE_def template_userId_def
      TableTabTypes_MINE_def TableTabTypes_FAVORITE_def TableTabTypes_EXAMPLES_def)

text \<open>
  C5. A mount whose initial tab is not Favorite issues no fetch; the collection the
  loader is seeded with is the supplied \<open>mine\<close> or the filtered examples. From then on,
  whatever happens, the fetches issued are exactly those of the tab changes, one per
  change and in their order: the first fetch comes with the first change of tab.
\<close>

theorem no_fetch_on_mount_unless_favorite:
  assumes "chartFilter (mount p store) \<noteq> ''Favorite''"
  shows "fetchCalls (mount p store) = []
    \<and> seededCollection p store
        = (if chartFilter (mount p store) = ''Mine'' then mine p else filteredExamples (examples p))
    \<and> fetchCalls (run p (mount p store) evs)
        = map (getData p) (tab_changes p (chartFilter (mount p store)) evs)"
proof -
  from assms have none: "fetchCalls (mount p store) = []"
    by (simp add: fetchCalls_mount chartFilter_mount Let_def)
  have "fetchCalls (run p (mount p store) evs)
      = fetchCalls (mount p store) @ map (getData p) (tab_changes p (chartFilter (mount p store)) evs)"
    by (rule fetchCalls_run) (rule settled_mount)
  with none show ?thesis
    by (simp add: seededCollection_def defaultCollection_def chartFilter_mount)
qed

theorem no_fetch_on_mount_unless_favorite_witness:
  "(let p = \<lparr>user = Some \<lparr>userId = 12\<rparr>, mine = [[(''id'', JNum 4)]], showThumbnails = True,
             examples = Some [[(''id'', JNum 1), (''viz_type'', JStr ''bar'')]]\<rparr>;
        m = mount p Map.empty
    in chartFilter m \<noteq> ''Favorite'' \<and> fetchCalls m = []
       \<and> seededCollection p Map.empty = [[(''id'', JNum 1), (''viz_type'', JStr ''bar'')]]
       \<and> fetchCalls (run p m [BulkExport [], TabClick ''Examples'', ExportDone]) = []
       \<and> fetchCalls (run p m [TabClick ''Examples'', TabClick ''Mine'', TabClick ''Mine''])
           = [\<lparr>pageIndex = 0, pageSize = 3,
               sortBy = [\<lparr>sort_id = ''changed_on_delta_humanized'', desc = True\<rparr>],
               filters = [\<lparr>filter_id = ''created_by'', operator = ''rel_o_m'',
                           val = JStr ''12''\<rparr>]\<rparr>])"
proof -
  let ?p = "\<lparr>user = Some \<lparr>userId = 12\<rparr>, mine = [[(''id'', JNum 4)]], showThumbnails = True,
             examples = Some [[(''id'', JNum 1), (''viz_type'', JStr ''bar'')]]\<rparr>"
  have a: "chartFilter (mount ?p Map.empty) = ''Examples''"
    by (simp add: chartFilter_mount getFromLocalStorage_def initialFilter_def js_or_def
        TableTabTypes_EXAMPLES_def)
  then have b: "chartFilter (mount ?p Map.empty) \<noteq> ''Favorite''" by simp
  have c: "string_of_int 12 = ''12''" by code_simp
  show ?thesis
    using a
      no_fetch_on_mount_unless_favorite [OF b, of "[BulkExport [], TabClick ''Examples'', ExportDone]"]
      no_fetch_on_mount_unless_favorite [OF b, of "[TabClick ''Examples'', TabClick ''Mine'', TabClick ''Mine'']"]
    by (simp add: Let_def menuTabs_def getData_def getFilters_def PAGE_SIZE_def
        template_userId_def c filteredExamples_def lodash_filter_def has_key_def)
qed

text \<open>
  C6. Saving from the edit modal replaces the entries of the collection whose id is the
  saved chart's id by the saved chart, leaves every other entry and the length of the
  collection as they were, and closes the modal; closing without saving leaves the
  collection as it was and closes the modal. (Against the controller modelled from the
  spec.)
\<close>

theorem edit_save_replaces_matching:
  "length (resourceCollection (handleChartUpdated u h)) = length (resourceCollection h)
   \<and> (\<forall>i < length (resourceCollection h).
        resourceCollection (handleChartUpdated u h) ! i
          = (if chart_id (resourceCollection h ! i) = chart_id u then u
             else resourceCollection h ! i))
   \<and> sliceCurrentlyEditing (handleChartUpdated u h) = None
   \<and> resourceCollection (closeChartEditModal h) = resourceCollection h
   \<and> sliceCurrentlyEditing (closeChartEditModal h) = None"
  by (simp add: handleChartUpdated_def closeChartEditModal_def)

theorem edit_save_replaces_matching_witness:
  "(let c1 = [(''id'', JNum 1), (''slice_name'', JStr ''a'')];
        c2 = [(''id'', JNum 2), (''slice_name'', JStr ''b'')];
        u = [(''id'', JNum 2), (''slice_name'', JStr ''renamed'')];
        h = openChartEditModal c2
              \<lparr>loading = False, resourceCollection = [c1, c2], sliceCurrentlyEditing = None\<rparr>
    in (1::nat) < length (resourceCollection h)
       \<and> resourceCollection (handleChartUpdated u h) ! 1 = u
       \<and> resourceCollection (handleChartUpdated u h) ! 0 = c1
       \<and> sliceCurrentlyEditing h = Some c2
       \<and> sliceCurrentlyEditing (handleChartUpdated u h) = None)"
proof -
  let ?c1 = "[(''id'', JNum 1), (''slice_name'', JStr ''a'')]"
  let ?c2 = "[(''id'', JNum 2), (''slice_name'', JStr ''b'')]"
  let ?u = "[(''id'', JNum 2), (''slice_name'', JStr ''renamed'')]"
  let ?h = "openChartEditModal ?c2
              \<lparr>loading = False, resourceCollection = [?c1, ?c2], sliceCurrentlyEditing = None\<rparr>"
  have len: "length (resourceCollection ?h) = 2" by (simp add: openChartEditModal_def)
  have rc: "resourceCollection ?h = [?c1, ?c2]" by (simp add: openChartEditModal_def)
  note t = edit_save_replaces_matching [of ?u ?h]
  from t have all: "\<forall>i < length (resourceCollection ?h).
        resourceCollection (handleChartUpdated ?u ?h) ! i
          = (if chart_id (resourceCollection ?h ! i) = chart_id ?u then ?u
             else resourceCollection ?h ! i)" by blast
  from t have closed: "sliceCurrentlyEditing (handleChartUpdated ?u ?h) = None" by blast
  have i0: "(0::nat) < length (resourceCollection ?h)" and i1: "(1::nat) < length (resourceCollection ?h)"
    using len by simp_all
  from all [rule_format, OF i0] all [rule_format, OF i1] closed i1 show ?thesis
    by (simp add: Let_def rc chart_id_def get_prop_def) (simp add: openChartEditModal_def)
qed

text \<open>
  C7. In a state \<open>s0\<close> the mounted component can reach, a bulk export hands the charts'
  ids to the export collaborator and sets the exporting flag (state \<open>s1\<close>); the flag is
  still set after any events among which the collaborator does not call back (state
  \<open>s2\<close>), and it is cleared once the callback fires (state \<open>s3\<close>). In \<open>s2\<close>, when the
  loader is not loading and the collection is not empty, the render is the page with the
  card grid of the collection and the export overlay on it. The collaborator calls back
  as an event of its own, after the handler has returned.
\<close>

theorem export_flag_until_callback:
  assumes "ExportDone \<notin> set evs"
    and "s0 = run p (mount p store) before"
    and "s1 = step p s0 (BulkExport cs)"
    and "s2 = run p s1 evs"
    and "s3 = step p s2 ExportDone"
  shows "preparingExport s1
    \<and> exportCalls s1 = exportCalls s0 @ [(''chart'', map chart_id cs)]
    \<and> preparingExport s2
    \<and> \<not> preparingExport s3
    \<and> (\<not> loading h \<and> resourceCollection h \<noteq> [] \<longrightarrow>
          (\<exists>pg. render p h s2 = ErrorBoundary pg
             \<and> content pg = CardContainer (resourceCollection h) \<and> exportOverlay pg))"
proof -
  have inv0: "exportsDone s0 \<le> length (exportCalls s0)"
    unfolding assms(2) by (rule exports_run) (rule exports_mount)
  note t = export_trigger_step [OF inv0, of p cs, folded assms(3)]
  from t have p1: "preparingExport s1" and c1: "exportsDone s1 < length (exportCalls s1)"
    by blast+
  note r = export_pending_run [OF assms(1) p1 c1, of p, folded assms(4)]
  have d: "\<not> preparingExport s3"
    unfolding assms(5) using r by (simp add: export_done_step)
  show ?thesis using t r d by (simp add: render_overlay)
qed

theorem export_flag_until_callback_witness:
  "ExportDone \<notin> set [TabClick ''Mine'', BulkExport []]
   \<and> (let p = \<lparr>user = None, mine = [], showThumbnails = True, examples = None\<rparr>;
           cs = [[(''id'', JNum 1)], [(''id'', JNum 2)], [(''id'', JNum 3)]];
           h = \<lparr>loading = False, resourceCollection = cs, sliceCurrentlyEditing = None\<rparr>;
           s0 = run p (mount p Map.empty) [];
           s1 = step p s0 (BulkExport cs);
           s2 = run p s1 [TabClick ''Mine'', BulkExport []];
           s3 = step p s2 ExportDone
        in preparingExport s1
           \<and> exportCalls s1 = [(''chart'', [JNum 1, JNum 2, JNum 3])]
           \<and> preparingExport s2 \<and> \<not> preparingExport s3
           \<and> \<not> loading h \<and> resourceCollection h \<noteq> []
           \<and> (\<exists>pg. render p h s2 = ErrorBoundary pg \<and> content pg = CardContainer cs
                 \<and> exportOverlay pg))"
proof -
  have a: "ExportDone \<notin> set [TabClick ''Mine'', BulkExport []]" by simp
  have b: "exportCalls (run p (mount p Map.empty) []) = []" for p
    by (simp add: run_def mount_def Let_def)
  show ?thesis
    using a export_flag_until_callback [OF a refl refl refl refl,
        of "\<lparr>user = None, mine = [], showThumbnails = True, examples = None\<rparr>" Map.empty "[]"
          "[[(''id'', JNum 1)], [(''id'', JNum 2)], [(''id'', JNum 3)]]"
          "\<lparr>loading = False, resourceCollection =
             [[(''id'', JNum 1)], [(''id'', JNum 2)], [(''id'', JNum 3)]],
             sliceCurrentlyEditing = None\<rparr>"]
    by (simp add: Let_def b chart_id_def get_prop_def)
qed

text \<open>
  C9. With nothing stored under the key the initial tab is "Examples", also when no
  examples collection is supplied, and then the submenu has the tabs Favorite and Mine
  only. The fall-back to "Mine" is for the stored value "Examples" alone: for every other
  value read, the initial tab without examples is what it is with examples.
\<close>

theorem empty_storage_initial_tab:
  assumes "getFromLocalStorage store HOMEPAGE_CHART_FILTER None = None"
  shows "chartFilter (mount p store) = ''Examples''
         \<and> map tab_name (menuTabs (p\<lparr>examples := None\<rparr>)) = [''Favorite'', ''Mine'']
         \<and> (\<forall>v. v \<noteq> Some ''Examples'' \<longrightarrow> initialFilter None v = initialFilter (examples p) v)
         \<and> initialFilter None (Some ''Examples'') = ''Mine''"
  using assms
  by (simp add: chartFilter_mount initialFilter_def js_or_def Let_def menuTabs_def
      TableTabTypes_MINE_def TableTabTypes_EXAMPLES_def)

theorem empty_storage_initial_tab_witness:
  "getFromLocalStorage Map.empty HOMEPAGE_CHART_FILTER None = None
   \<and> chartFilter (mount \<lparr>user = None, mine = [], showThumbnails = False, examples = None\<rparr>
         Map.empty) = ''Examples''
   \<and> ''Examples'' \<notin> set (map tab_name
         (menuTabs \<lparr>user = None, mine = [], showThumbnails = False, examples = None\<rparr>))
   \<and> initialFilter None (Some ''Favorite'') = ''Favorite''"
proof -
  have a: "getFromLocalStorage Map.empty HOMEPAGE_CHART_FILTER None = None"
    by (simp add: getFromLocalStorage_def)
  have b: "Some ''Favorite'' \<noteq> Some ''Examples''" by simp
  show ?thesis
    using a b empty_storage_initial_tab [OF a,
        of "\<lparr>user = None, mine = [], showThumbnails = False, examples = Some []\<rparr>"]
      empty_storage_initial_tab [OF a,
        of "\<lparr>user = None, mine = [], showThumbnails = False, examples = None\<rparr>"]
    by (simp add: initialFilter_def js_or_def TableTabTypes_EXAMPLES_def TableTabTypes_MINE_def)
qed

text \<open>
  C10. The default collection handed to the loader is the supplied \<open>mine\<close> when the
  initial tab is "Mine"; for every other initial tab, Favorite included, it is the
  supplied examples (none when no examples are supplied) restricted to the objects that
  have a \<open>viz_type\<close> key.
\<close>

theorem default_collection_seed:
  "seededCollection p store =
     (if chartFilter (mount p store) = ''Mine'' then mine p
      else filter (\<lambda>obj. ''viz_type'' \<in> fst ` set obj)
             (case examples p of None \<Rightarrow> [] | Some xs \<Rightarrow> xs))"
  by (cases "examples p")
    (simp_all add: seededCollection_def defaultCollection_def chartFilter_mount
      filteredExamples_def lodash_filter_def has_key_iff [abs_def])

end
